theory Spec2Isabelle
  imports Main
begin

section \<open>Template loading: django/template/loader.py\<close>

text \<open>
  A shallow embedding of the loader module. Python objects that the module compares by
  identity are references into a store; exceptions are values of a sum type; the
  module-level global, the warnings and the calls made to external collaborators are
  fields of an explicit state that every function takes and returns.
\<close>

subsection \<open>Values, exceptions and the store\<close>

type_synonym addr = nat

text \<open>
  A callable that can stand in a loader chain or in an origin: an object without a
  \<open>__self__\<close> attribute (a loader instance, or a function-based loader), or a bound
  method of such an object, named by the method. These are the two forms the module
  itself produces: \<open>find_template_loader\<close> returns instances and functions, and
  \<open>BaseLoader.load_template\<close> records \<open>self.load_template_source\<close>.
\<close>

datatype pyobj = Instance addr | BoundMethod addr string

text \<open>Values of the \<open>TEMPLATE_LOADERS\<close> setting: strings, tuples or lists, anything else.\<close>

datatype pyval = Str string | Seq "pyval list" | Other

text \<open>
  The exceptions the module raises or lets through. \<open>TemplateDoesNotExist\<close> carries
  its message \<open>args[0]\<close>; \<open>IndexError\<close> is what \<open>loader[0]\<close> raises on an empty
  tuple; \<open>OtherError\<close> stands for whatever else a collaborator raises.
\<close>

datatype exn =
    TemplateDoesNotExist string
  | ImproperlyConfigured string
  | IndexError
  | OtherError string

text \<open>
  The attributes of a loader object that the module reads, and its configuration (the
  dotted path it was imported from and the constructor arguments), so that two distinct
  instances can be equal in everything but their address. \<open>BaseLoader\<close> gives every
  class-based loader both attributes (lines 56-58); a function-based loader is taken to
  carry them too.
\<close>

record loader_obj =
  is_usable :: bool
  never_skip :: bool
  path :: string
  init_args :: "pyval list"

type_synonym store = "addr \<Rightarrow> loader_obj"

text \<open>\<open>getattr(x, '__self__', x)\<close>: a bound method gives its instance, anything else itself.\<close>

fun self_of :: "pyobj \<Rightarrow> pyobj" where
  "self_of (BoundMethod a f) = Instance a"
| "self_of (Instance a) = Instance a"

fun addr_of :: "pyobj \<Rightarrow> addr" where
  "addr_of (BoundMethod a f) = a"
| "addr_of (Instance a) = a"

text \<open>
  \<open>LoaderOrigin\<close>: the display name, the loader, the name and the directories it was
  asked for.
\<close>

record origin =
  display_name :: string
  loader :: pyobj
  loadname :: string
  dirs :: "string list option"

text \<open>
  \<open>make_origin\<close>, lines 106-110. The test \<open>if display_name\<close> is Python truthiness:
  \<open>None\<close> and the empty string both give no origin.
\<close>

definition make_origin ::
  "string option \<Rightarrow> pyobj \<Rightarrow> string \<Rightarrow> string list option \<Rightarrow> origin option" where
  "make_origin dn l name ds =
     (case dn of
        None \<Rightarrow> None
      | Some s \<Rightarrow>
          if s = [] then None
          else Some \<lparr>display_name = s, loader = l, loadname = name, dirs = ds\<rparr>)"

text \<open>
  The template to skip. The module reads it only through
  \<open>getattr(skip_template, 'loadname', None)\<close> and \<open>getattr(skip_template, 'loader', None)\<close>,
  so each attribute may be absent; \<open>skip_template = None\<close> is \<open>None\<close> here and has
  neither.
\<close>

record marker =
  m_loadname :: "string option"
  m_loader :: "pyobj option"

subsection \<open>The skip-chain filter\<close>

text \<open>Lines 171-172: the loader object to skip, unwrapped once.\<close>

definition loader_to_skip :: "marker option \<Rightarrow> pyobj option" where
  "loader_to_skip skip_template =
     (case (case skip_template of None \<Rightarrow> None | Some m \<Rightarrow> m_loader m) of
        None \<Rightarrow> None
      | Some l \<Rightarrow> Some (self_of l))"

text \<open>
  The loop of lines 173-180, with \<open>has_been_skiped\<close> as an argument. The generator's
  yields are the elements of the result, in order. \<open>loader == loader_to_skip\<close> is
  the default comparison of objects, which neither \<open>BaseLoader\<close> nor a function
  overrides: equality of references.
\<close>

fun skip_loop :: "store \<Rightarrow> pyobj option \<Rightarrow> bool \<Rightarrow> pyobj list \<Rightarrow> pyobj list" where
  "skip_loop h target has_been_skiped [] = []"
| "skip_loop h target has_been_skiped (l # ls) =
     (let loader = self_of l in
        (if has_been_skiped \<or> never_skip (h (addr_of loader)) then [loader] else []) @
        skip_loop h target (if Some loader = target then True else has_been_skiped) ls)"

definition skip_loaders :: "store \<Rightarrow> pyobj list \<Rightarrow> marker option \<Rightarrow> pyobj list" where
  "skip_loaders h loaders skip_template =
     skip_loop h (loader_to_skip skip_template) False loaders"

subsection \<open>State and external collaborators\<close>

text \<open>
  What a loader call returns as content: raw source, or an object with a \<open>render\<close>
  attribute (an already compiled template).
\<close>

datatype 't content = Source string | Compiled 't

text \<open>
  What \<open>import_by_path\<close> returns: an object with a \<open>load_template_source\<close>
  attribute, which is called with the arguments to make a new loader object, or an
  object without one, taken as a function-based loader.
\<close>

datatype imported = LoaderClass | FunctionLoader addr

text \<open>
  The process state. \<open>template_source_loaders\<close> is the module's global (line 35),
  \<open>None\<close> until it is computed. \<open>heap\<close> and \<open>next_addr\<close> are the loader objects
  and the next free address. \<open>warned\<close> lists the loader paths \<open>warnings.warn\<close> was
  called for, \<open>resolved\<close> the arguments \<open>find_template_loader\<close> was called with and
  \<open>invoked\<close> the loaders \<open>find_template\<close> called, each in order. \<open>world\<close> is
  whatever the loaders and the compiler read and write.
\<close>

record 'w state =
  template_source_loaders :: "pyobj list option"
  heap :: store
  next_addr :: addr
  warned :: "string list"
  resolved :: "pyval list"
  invoked :: "pyobj list"
  world :: 'w

type_synonym dict = "(string \<times> string) list"

text \<open>
  Modelled from the spec: \<open>Context\<close> of \<open>django.template.base\<close>, which is not part
  of this module. A context is a stack of binding frames, the top first; a fresh context
  is built solely from the bindings; \<open>push\<close> adds a frame and leaving the \<open>with\<close>
  block removes the top frame.
\<close>

record template_context =
  dicts :: "dict list"

definition Context :: "dict \<Rightarrow> template_context" where
  "Context d = \<lparr>dicts = [d]\<rparr>"

definition push :: "template_context \<Rightarrow> dict \<Rightarrow> template_context" where
  "push c d = c\<lparr>dicts := d # dicts c\<rparr>"

definition pop :: "template_context \<Rightarrow> template_context" where
  "pop c = c\<lparr>dicts := tl (dicts c)\<rparr>"

text \<open>
  The collaborators the module calls: the \<open>TEMPLATE_LOADERS\<close> setting,
  \<open>import_by_path\<close>, the constructor of an imported loader class (it gives the new
  object's \<open>is_usable\<close> and \<open>never_skip\<close>), the call of a chain entry
  \<open>loader(name, dirs, skip_template)\<close>, a subclass's \<open>load_template_source\<close>, the
  compiler \<open>Template(source, origin, name)\<close> and \<open>t.render(context)\<close>, which may
  change the context it is given.
\<close>

record ('w, 't) env =
  TEMPLATE_LOADERS :: "pyval list"
  import_by_path :: "string \<Rightarrow> exn + imported"
  construct :: "string \<Rightarrow> pyval list \<Rightarrow> exn + bool \<times> bool"
  call_loader :: "pyobj \<Rightarrow> string \<Rightarrow> string list option \<Rightarrow> marker option \<Rightarrow> 'w
    \<Rightarrow> (exn + 't content \<times> string option) \<times> 'w"
  load_template_source :: "addr \<Rightarrow> string \<Rightarrow> string list option \<Rightarrow> 'w
    \<Rightarrow> (exn + string \<times> string option) \<times> 'w"
  Template :: "string \<Rightarrow> origin option \<Rightarrow> string option \<Rightarrow> 'w \<Rightarrow> (exn + 't) \<times> 'w"
  render :: "'t \<Rightarrow> template_context \<Rightarrow> 'w
    \<Rightarrow> (exn + string) \<times> template_context \<times> 'w"

subsection \<open>The loader registry\<close>

text \<open>Lines 131-138: an unusable loader is warned about and dropped.\<close>

definition check_usable ::
  "string \<Rightarrow> pyobj \<Rightarrow> 'w state \<Rightarrow> (exn + pyobj option) \<times> 'w state" where
  "check_usable p func st =
     (if \<not> is_usable (heap st (addr_of func))
      then (Inr None, st\<lparr>warned := warned st @ [p]\<rparr>)
      else (Inr (Some func), st))"

text \<open>
  \<open>find_template_loader\<close>, lines 113-141. Each call is recorded in \<open>resolved\<close>.
  A loader class is called with the arguments and the new object takes the next free
  address; an imported object without \<open>load_template_source\<close> is the loader itself.
\<close>

definition find_template_loader ::
  "('w, 't) env \<Rightarrow> pyval \<Rightarrow> 'w state \<Rightarrow> (exn + pyobj option) \<times> 'w state" where
  "find_template_loader e spec st0 =
     (let st = st0\<lparr>resolved := resolved st0 @ [spec]\<rparr> in
      case (case spec of
              Seq [] \<Rightarrow> Inl IndexError
            | Seq (x # xs) \<Rightarrow> Inr (x, xs)
            | _ \<Rightarrow> Inr (spec, [])) of
        Inl err \<Rightarrow> (Inl err, st)
      | Inr (l, args) \<Rightarrow>
          (case l of
             Str p \<Rightarrow>
               (case import_by_path e p of
                  Inl err \<Rightarrow> (Inl err, st)
                | Inr LoaderClass \<Rightarrow>
                    (case construct e p args of
                       Inl err \<Rightarrow> (Inl err, st)
                     | Inr (u, ns) \<Rightarrow>
                         check_usable p (Instance (next_addr st))
                           (st\<lparr>heap := (heap st)(next_addr st :=
                                  \<lparr>is_usable = u, never_skip = ns, path = p, init_args = args\<rparr>),
                               next_addr := Suc (next_addr st)\<rparr>))
                | Inr (FunctionLoader a) \<Rightarrow>
                    if args \<noteq> []
                    then (Inl (ImproperlyConfigured
                           (''Error importing template source loader '' @ p @
                            '' - can'' @ [CHR 0x27] @
                            ''t pass arguments to function-based loader.'')), st)
                    else check_usable p (Instance a) st)
           | _ \<Rightarrow>
               (Inl (ImproperlyConfigured
                  (''Loader does not define a '' @ [CHR 0x22] @ ''load_template'' @
                   [CHR 0x22] @ '' callable template source loader'')), st)))"

text \<open>The loop of lines 46-50.\<close>

fun resolve_all ::
  "('w, 't) env \<Rightarrow> pyval list \<Rightarrow> pyobj list \<Rightarrow> 'w state \<Rightarrow> (exn + pyobj list) \<times> 'w state" where
  "resolve_all e [] loaders st = (Inr loaders, st)"
| "resolve_all e (loader_name # rest) loaders st =
     (case find_template_loader e loader_name st of
        (Inl err, st') \<Rightarrow> (Inl err, st')
      | (Inr None, st') \<Rightarrow> resolve_all e rest loaders st'
      | (Inr (Some l), st') \<Rightarrow> resolve_all e rest (loaders @ [l]) st')"

text \<open>\<open>get_template_source_loaders\<close>, lines 38-52.\<close>

definition get_template_source_loaders ::
  "('w, 't) env \<Rightarrow> 'w state \<Rightarrow> (exn + pyobj list) \<times> 'w state" where
  "get_template_source_loaders e st =
     (case template_source_loaders st of
        None \<Rightarrow>
          (case resolve_all e (TEMPLATE_LOADERS e) [] st of
             (Inl err, st') \<Rightarrow> (Inl err, st')
           | (Inr loaders, st') \<Rightarrow>
               (Inr loaders, st'\<lparr>template_source_loaders := Some loaders\<rparr>))
      | Some loaders \<Rightarrow> (Inr loaders, st))"

text \<open>Clearing the process-wide cache: the global is set back to \<open>None\<close>.\<close>

definition reset_loaders :: "'w state \<Rightarrow> 'w state" where
  "reset_loaders st = st\<lparr>template_source_loaders := None\<rparr>"

subsection \<open>The class-based loader\<close>

text \<open>\<open>get_template_from_string\<close>, lines 195-200.\<close>

definition get_template_from_string ::
  "('w, 't) env \<Rightarrow> string \<Rightarrow> origin option \<Rightarrow> string option \<Rightarrow> 'w \<Rightarrow> (exn + 't) \<times> 'w" where
  "get_template_from_string e source orig name w = Template e source orig name w"

text \<open>
  \<open>BaseLoader.load_template\<close>, lines 66-77, for the instance at address \<open>self\<close>. Only
  \<open>TemplateDoesNotExist\<close> from the compilation is caught.
\<close>

definition load_template ::
  "('w, 't) env \<Rightarrow> addr \<Rightarrow> string \<Rightarrow> string list option \<Rightarrow> marker option \<Rightarrow> 'w
    \<Rightarrow> (exn + 't content \<times> string option) \<times> 'w" where
  "load_template e self template_name template_dirs skip_template w =
     (case load_template_source e self template_name template_dirs w of
        (Inl err, w1) \<Rightarrow> (Inl err, w1)
      | (Inr (source, dn), w1) \<Rightarrow>
          (let orig = make_origin dn (BoundMethod self ''load_template_source'')
                        template_name template_dirs in
           case get_template_from_string e source orig (Some template_name) w1 of
             (Inr template, w2) \<Rightarrow> (Inr (Compiled template, None), w2)
           | (Inl (TemplateDoesNotExist msg), w2) \<Rightarrow> (Inr (Source source, dn), w2)
           | (Inl err, w2) \<Rightarrow> (Inl err, w2)))"

text \<open>\<open>BaseLoader.__call__\<close>, lines 63-64.\<close>

definition BaseLoader_call ::
  "('w, 't) env \<Rightarrow> addr \<Rightarrow> string \<Rightarrow> string list option \<Rightarrow> marker option \<Rightarrow> 'w
    \<Rightarrow> (exn + 't content \<times> string option) \<times> 'w" where
  "BaseLoader_call e self template_name template_dirs skip_template w =
     load_template e self template_name template_dirs skip_template w"

subsection \<open>The resolver\<close>

text \<open>The call \<open>loader(name, dirs, skip_template)\<close> of line 159, recorded in \<open>invoked\<close>.\<close>

definition invoke ::
  "('w, 't) env \<Rightarrow> pyobj \<Rightarrow> string \<Rightarrow> string list option \<Rightarrow> marker option \<Rightarrow> 'w state
    \<Rightarrow> (exn + 't content \<times> string option) \<times> 'w state" where
  "invoke e l name ds skip_template st =
     (case call_loader e l name ds skip_template (world st) of
        (r, w) \<Rightarrow> (r, st\<lparr>invoked := invoked st @ [l], world := w\<rparr>))"

text \<open>
  The loop of lines 157-163. A loader's \<open>TemplateDoesNotExist\<close> is passed over, any
  other exception leaves the loop.
\<close>

fun try_loaders ::
  "('w, 't) env \<Rightarrow> string \<Rightarrow> string list option \<Rightarrow> marker option \<Rightarrow> pyobj list \<Rightarrow> 'w state
    \<Rightarrow> (exn + 't content \<times> origin option) \<times> 'w state" where
  "try_loaders e name ds skip_template [] st = (Inl (TemplateDoesNotExist name), st)"
| "try_loaders e name ds skip_template (l # ls) st =
     (case invoke e l name ds skip_template st of
        (Inr (source, dn), st') \<Rightarrow> (Inr (source, make_origin dn l name ds), st')
      | (Inl (TemplateDoesNotExist msg), st') \<Rightarrow> try_loaders e name ds skip_template ls st'
      | (Inl err, st') \<Rightarrow> (Inl err, st'))"

text \<open>Line 151: the chain given, or the memoized one.\<close>

definition active_loaders ::
  "('w, 't) env \<Rightarrow> pyobj list option \<Rightarrow> 'w state \<Rightarrow> (exn + pyobj list) \<times> 'w state" where
  "active_loaders e loaders st =
     (case loaders of
        None \<Rightarrow> get_template_source_loaders e st
      | Some ls \<Rightarrow> (Inr ls, st))"

text \<open>Line 155: \<open>getattr(skip_template, 'loadname', None) == name\<close>.\<close>

definition same_name :: "marker option \<Rightarrow> string \<Rightarrow> bool" where
  "same_name skip_template name =
     ((case skip_template of None \<Rightarrow> None | Some m \<Rightarrow> m_loadname m) = Some name)"

text \<open>
  \<open>find_template\<close>, lines 144-163. The generator of \<open>skip_loaders\<close> reads
  \<open>never_skip\<close> while the loop runs; loader calls change \<open>world\<close> only, never the
  loader objects, so the filtered chain is the same computed before the loop.
\<close>

definition find_template ::
  "('w, 't) env \<Rightarrow> string \<Rightarrow> string list option \<Rightarrow> marker option \<Rightarrow> pyobj list option
    \<Rightarrow> 'w state \<Rightarrow> (exn + 't content \<times> origin option) \<times> 'w state" where
  "find_template e name ds skip_template loaders st =
     (case active_loaders e loaders st of
        (Inl err, st1) \<Rightarrow> (Inl err, st1)
      | (Inr ls, st1) \<Rightarrow>
          try_loaders e name ds skip_template
            (if same_name skip_template name
             then skip_loaders (heap st1) ls skip_template else ls) st1)"

subsection \<open>The facade and the selector\<close>

text \<open>\<open>get_template\<close>, lines 183-192.\<close>

definition get_template ::
  "('w, 't) env \<Rightarrow> string \<Rightarrow> string list option \<Rightarrow> marker option \<Rightarrow> 'w state
    \<Rightarrow> (exn + 't) \<times> 'w state" where
  "get_template e template_name ds skip_template st =
     (case find_template e template_name ds skip_template None st of
        (Inl err, st1) \<Rightarrow> (Inl err, st1)
      | (Inr (Compiled t, orig), st1) \<Rightarrow> (Inr t, st1)
      | (Inr (Source s, orig), st1) \<Rightarrow>
          (case get_template_from_string e s orig (Some template_name) (world st1) of
             (r, w) \<Rightarrow> (r, st1\<lparr>world := w\<rparr>)))"

text \<open>\<open>', '.join(not_found)\<close>.\<close>

fun join :: "string \<Rightarrow> string list \<Rightarrow> string" where
  "join sep [] = []"
| "join sep [x] = x"
| "join sep (x # y # ys) = x @ sep @ join sep (y # ys)"

text \<open>The loop of lines 229-237, with the list \<open>not_found\<close> as an argument.\<close>

fun select_loop ::
  "('w, 't) env \<Rightarrow> string list option \<Rightarrow> marker option \<Rightarrow> string list \<Rightarrow> string list
    \<Rightarrow> 'w state \<Rightarrow> (exn + 't) \<times> 'w state" where
  "select_loop e ds skip_template [] not_found st =
     (Inl (TemplateDoesNotExist (join '', '' not_found)), st)"
| "select_loop e ds skip_template (template_name # rest) not_found st =
     (case get_template e template_name ds skip_template st of
        (Inr t, st1) \<Rightarrow> (Inr t, st1)
      | (Inl (TemplateDoesNotExist msg), st1) \<Rightarrow>
          select_loop e ds skip_template rest
            (if msg \<notin> set not_found then not_found @ [msg] else not_found) st1
      | (Inl err, st1) \<Rightarrow> (Inl err, st1))"

text \<open>\<open>select_template\<close>, lines 224-237.\<close>

definition select_template ::
  "('w, 't) env \<Rightarrow> string list \<Rightarrow> string list option \<Rightarrow> marker option \<Rightarrow> 'w state
    \<Rightarrow> (exn + 't) \<times> 'w state" where
  "select_template e template_name_list ds skip_template st =
     (if template_name_list = []
      then (Inl (TemplateDoesNotExist ''No template names provided''), st)
      else select_loop e ds skip_template template_name_list [] st)"

text \<open>The first argument of \<open>render_to_string\<close>: a name, or a list or tuple of names.\<close>

datatype names = Single string | Many "string list"

text \<open>Lines 212-215: a list or tuple goes to \<open>select_template\<close>, a name to \<open>get_template\<close>.\<close>

definition load_named ::
  "('w, 't) env \<Rightarrow> names \<Rightarrow> string list option \<Rightarrow> 'w state \<Rightarrow> (exn + 't) \<times> 'w state" where
  "load_named e template_name ds st =
     (case template_name of
        Many ns \<Rightarrow> select_template e ns ds None st
      | Single n \<Rightarrow> get_template e n ds None st)"

text \<open>Line 211: \<open>dictionary or {}\<close>.\<close>

definition bindings :: "dict option \<Rightarrow> dict" where
  "bindings dictionary = (case dictionary of None \<Rightarrow> [] | Some d \<Rightarrow> d)"

text \<open>
  \<open>render_to_string\<close>, lines 203-221. The context instance is the caller's object:
  the result holds what it is afterwards. A context object is always true, so
  \<open>not context_instance\<close> holds for \<open>None\<close> only. The \<open>with\<close> block removes the
  top frame whether \<open>render\<close> returns or raises.
\<close>

definition render_to_string ::
  "('w, 't) env \<Rightarrow> names \<Rightarrow> dict option \<Rightarrow> template_context option \<Rightarrow> string list option
    \<Rightarrow> 'w state \<Rightarrow> (exn + string) \<times> template_context option \<times> 'w state" where
  "render_to_string e template_name dictionary context_instance ds st =
     (case load_named e template_name ds st of
        (Inl err, st1) \<Rightarrow> (Inl err, context_instance, st1)
      | (Inr t, st1) \<Rightarrow>
          (case context_instance of
             None \<Rightarrow>
               (case render e t (Context (bindings dictionary)) (world st1) of
                  (r, c, w) \<Rightarrow> (r, None, st1\<lparr>world := w\<rparr>))
           | Some ctx \<Rightarrow>
               (case render e t (push ctx (bindings dictionary)) (world st1) of
                  (r, c, w) \<Rightarrow> (r, Some (pop c), st1\<lparr>world := w\<rparr>))))"

subsection \<open>Notions used to state the properties\<close>

text \<open>
  Every loader of the list, called in order from the state \<open>st\<close>, raises
  \<open>TemplateDoesNotExist\<close>; the result is the state after the last call.
\<close>

fun all_not_found ::
  "('w, 't) env \<Rightarrow> string \<Rightarrow> string list option \<Rightarrow> marker option \<Rightarrow> pyobj list \<Rightarrow> 'w state
    \<Rightarrow> 'w state option" where
  "all_not_found e name ds skip_template [] st = Some st"
| "all_not_found e name ds skip_template (l # ls) st =
     (case invoke e l name ds skip_template st of
        (Inl (TemplateDoesNotExist msg), st') \<Rightarrow> all_not_found e name ds skip_template ls st'
      | _ \<Rightarrow> None)"

text \<open>
  Every name of the list, looked up in order with \<open>get_template\<close> from the state
  \<open>st\<close>, fails with \<open>TemplateDoesNotExist\<close>; the result is the messages in order
  and the state after the last lookup.
\<close>

fun failures ::
  "('w, 't) env \<Rightarrow> string list option \<Rightarrow> marker option \<Rightarrow> string list \<Rightarrow> 'w state
    \<Rightarrow> (string list \<times> 'w state) option" where
  "failures e ds skip_template [] st = Some ([], st)"
| "failures e ds skip_template (n # ns) st =
     (case get_template e n ds skip_template st of
        (Inl (TemplateDoesNotExist msg), st1) \<Rightarrow>
          (case failures e ds skip_template ns st1 of
             None \<Rightarrow> None
           | Some (ms, st2) \<Rightarrow> Some (msg # ms, st2))
      | _ \<Rightarrow> None)"

text \<open>The result is a failure with \<open>TemplateDoesNotExist\<close>.\<close>

definition is_not_found :: "exn + 'a \<Rightarrow> bool" where
  "is_not_found r = (case r of Inl (TemplateDoesNotExist msg) \<Rightarrow> True | _ \<Rightarrow> False)"

text \<open>The distinct elements of a list, in the order of their first occurrence.\<close>

fun first_seen :: "string list \<Rightarrow> string list" where
  "first_seen [] = []"
| "first_seen (x # xs) = x # first_seen (removeAll x xs)"

subsection \<open>A small installation\<close>

text \<open>
  Four loader objects for the examples. The one at address 0 is flagged never-skip;
  those at 1, 2 and 3 have the same attributes and the same configuration, and differ
  in their address only.
\<close>

definition ex_heap :: store where
  "ex_heap a = \<lparr>is_usable = True, never_skip = (a = 0), path = ''app.Loader'', init_args = []\<rparr>"

text \<open>
  The loader at 2 has the source of \<open>base.html\<close> and a compiled \<open>boom.html\<close>;
  the one at 3 fails with an I/O error; every other call raises
  \<open>TemplateDoesNotExist\<close> with a message of the loader's own. The world counts the
  calls.
\<close>

definition ex_call ::
  "pyobj \<Rightarrow> string \<Rightarrow> string list option \<Rightarrow> marker option \<Rightarrow> nat
    \<Rightarrow> (exn + string content \<times> string option) \<times> nat" where
  "ex_call l name ds skip_template w =
     (if addr_of l = 2 \<and> name = ''base.html''
      then (Inr (Source ''hello'', Some ''/templates/base.html''), Suc w)
      else if addr_of l = 2 \<and> name = ''boom.html''
      then (Inr (Compiled ''boom'', None), Suc w)
      else if addr_of l = 3 then (Inl (OtherError ''IOError''), Suc w)
      else (Inl (TemplateDoesNotExist (''tried '' @ name)), Suc w))"

definition ex_load_template_source ::
  "addr \<Rightarrow> string \<Rightarrow> string list option \<Rightarrow> nat \<Rightarrow> (exn + string \<times> string option) \<times> nat" where
  "ex_load_template_source self name ds w =
     (if name = ''broken.html''
      then (Inr (''broken'', Some ''/templates/broken.html''), Suc w)
      else (Inl (TemplateDoesNotExist name), Suc w))"

text \<open>The compiler: the source \<open>broken\<close> includes a template that does not exist.\<close>

definition ex_Template ::
  "string \<Rightarrow> origin option \<Rightarrow> string option \<Rightarrow> nat \<Rightarrow> (exn + string) \<times> nat" where
  "ex_Template source orig name w =
     (if source = ''broken'' then (Inl (TemplateDoesNotExist ''missing.html''), w)
      else (Inr source, w))"

text \<open>Rendering writes a binding into the top frame of the context; \<open>boom\<close> raises.\<close>

definition ex_render ::
  "string \<Rightarrow> template_context \<Rightarrow> nat \<Rightarrow> (exn + string) \<times> template_context \<times> nat" where
  "ex_render t c w =
     (if t = ''boom'' then Inl (OtherError ''render'') else Inr t,
      c\<lparr>dicts := (case dicts c of [] \<Rightarrow> [] | d # r \<Rightarrow> ((''seen'', ''yes'') # d) # r)\<rparr>,
      w)"


definition ex_import :: "string \<Rightarrow> exn + imported" where
  "ex_import p =
     (if p = ''app.Loader'' then Inr LoaderClass
      else if p = ''app.load'' then Inr (FunctionLoader 1)
      else Inl (ImproperlyConfigured p))"

definition ex_env :: "(nat, string) env" where
  "ex_env =
     \<lparr>TEMPLATE_LOADERS = [Str ''app.Loader'', Seq [Str ''app.load'']],
      import_by_path = ex_import,
      construct = (\<lambda>p args. Inr (True, False)),
      call_loader = ex_call,
      load_template_source = ex_load_template_source,
      Template = ex_Template,
      render = ex_render\<rparr>"

text \<open>The same installation with class-based loaders: calling one is \<open>__call__\<close>.\<close>

definition ex_class_env :: "(nat, string) env" where
  "ex_class_env = ex_env\<lparr>call_loader := \<lambda>l. BaseLoader_call ex_env (addr_of l)\<rparr>"


text \<open>A process that has not computed its loaders yet, and one whose chain is 1, 2.\<close>

definition ex_state :: "nat state" where
  "ex_state =
     \<lparr>template_source_loaders = None, heap = ex_heap, next_addr = 4, warned = [],
      resolved = [], invoked = [], world = 0\<rparr>"

definition ex_ready :: "nat state" where
  "ex_ready = ex_state\<lparr>template_source_loaders := Some [Instance 1, Instance 2]\<rparr>"

section \<open>Properties\<close>

subsection \<open>The skip-chain filter\<close>

lemma addr_of_self_of: "addr_of (self_of l) = addr_of l"
  by (cases l) simp_all

lemma self_of_addr: "self_of l = Instance (addr_of l)"
  by (cases l) simp_all

lemma skip_loop_True: "skip_loop h t True ls = map self_of ls"
  by (induction ls) (simp_all add: Let_def)

lemma skip_loop_no_match:
  "\<forall>l\<in>set ls. Some (self_of l) \<noteq> t \<Longrightarrow>
   skip_loop h t False ls = map self_of (filter (\<lambda>l. never_skip (h (addr_of l))) ls)"
  by (induction ls) (simp_all add: Let_def addr_of_self_of)

lemma skip_loop_append:
  "skip_loop h t b (xs @ ys) =
     skip_loop h t b xs @ skip_loop h t (b \<or> (\<exists>l\<in>set xs. Some (self_of l) = t)) ys"
  by (induction xs arbitrary: b) (auto simp add: Let_def)

text \<open>
  C2. When the loader of the marker (unwrapped) first occurs in the chain at \<open>x\<close>, after
  the loaders \<open>pre\<close> and before \<open>post\<close>, \<open>skip_loaders\<close> yields the never-skip
  loaders of \<open>pre\<close> in their order, then \<open>x\<close> if it is never-skip, then every loader of
  \<open>post\<close>. When it occurs nowhere in the chain, \<open>skip_loaders\<close> yields the never-skip
  loaders of the chain and nothing else. Each loader is yielded as its underlying
  instance.
\<close>

theorem skip_loaders_yields:
  "((\<forall>l\<in>set pre. Some (self_of l) \<noteq> loader_to_skip skip_template) \<longrightarrow>
      Some (self_of x) = loader_to_skip skip_template \<longrightarrow>
      skip_loaders h (pre @ x # post) skip_template =
        map self_of (filter (\<lambda>l. never_skip (h (addr_of l))) pre) @
        (if never_skip (h (addr_of x)) then [self_of x] else []) @
        map self_of post) \<and>
   ((\<forall>l\<in>set ls. Some (self_of l) \<noteq> loader_to_skip skip_template) \<longrightarrow>
      skip_loaders h ls skip_template =
        map self_of (filter (\<lambda>l. never_skip (h (addr_of l))) ls))"
  by (simp add: skip_loaders_def skip_loop_append skip_loop_no_match skip_loop_True
      Let_def addr_of_self_of)

theorem skip_loaders_yields_witness:
  "skip_loaders ex_heap
     [Instance 0, Instance 1, BoundMethod 2 ''load_template'', Instance 3]
     (Some \<lparr>m_loadname = Some ''base.html'',
            m_loader = Some (BoundMethod 2 ''load_template_source'')\<rparr>) =
     [Instance 0, Instance 3] \<and>
   skip_loaders ex_heap [Instance 0, Instance 1]
     (Some \<lparr>m_loadname = Some ''base.html'',
            m_loader = Some (BoundMethod 2 ''load_template_source'')\<rparr>) =
     [Instance 0]"
  using skip_loaders_yields [where h = ex_heap and pre = "[Instance 0, Instance 1]"
      and x = "BoundMethod 2 ''load_template''" and post = "[Instance 3]"
      and ls = "[Instance 0, Instance 1]"
      and skip_template = "Some \<lparr>m_loadname = Some ''base.html'',
            m_loader = Some (BoundMethod 2 ''load_template_source'')\<rparr>"]
  by (simp add: loader_to_skip_def ex_heap_def)

text \<open>
  C7. The last loader \<open>x\<close> of a chain is yielded exactly when it is never-skip or an
  earlier entry of the chain has, after unwrapping, the address of the marker's
  unwrapped loader. The attributes and the configuration stored at the addresses play
  no part in the test: the store \<open>h\<close> is arbitrary.
\<close>

theorem skip_loaders_identity:
  "skip_loaders h (pre @ [x]) (Some \<lparr>m_loadname = n, m_loader = Some t\<rparr>) =
     skip_loaders h pre (Some \<lparr>m_loadname = n, m_loader = Some t\<rparr>) @
     (if (\<exists>l\<in>set pre. addr_of l = addr_of t) \<or> never_skip (h (addr_of x))
      then [Instance (addr_of x)] else [])"
  by (auto simp add: skip_loaders_def skip_loop_append loader_to_skip_def Let_def
      addr_of_self_of self_of_addr)

theorem skip_loaders_identity_witness:
  "ex_heap 1 = ex_heap 2 \<and>
   skip_loaders ex_heap [Instance 1, Instance 3]
     (Some \<lparr>m_loadname = None, m_loader = Some (BoundMethod 2 ''load_template_source'')\<rparr>) =
     skip_loaders ex_heap [Instance 1]
       (Some \<lparr>m_loadname = None, m_loader = Some (BoundMethod 2 ''load_template_source'')\<rparr>) \<and>
   skip_loaders ex_heap [BoundMethod 2 ''load_template'', Instance 3]
     (Some \<lparr>m_loadname = None, m_loader = Some (BoundMethod 2 ''load_template_source'')\<rparr>) =
     skip_loaders ex_heap [BoundMethod 2 ''load_template'']
       (Some \<lparr>m_loadname = None, m_loader = Some (BoundMethod 2 ''load_template_source'')\<rparr>) @
     [Instance 3]"
  using skip_loaders_identity [where h = ex_heap and pre = "[Instance 1]"
      and x = "Instance 3" and n = None and t = "BoundMethod 2 ''load_template_source''"]
    skip_loaders_identity [where h = ex_heap and pre = "[BoundMethod 2 ''load_template'']"
      and x = "Instance 3" and n = None and t = "BoundMethod 2 ''load_template_source''"]
  by (simp add: ex_heap_def)

subsection \<open>The resolver\<close>

lemma invoke_invoked:
  "invoke e l name ds sk st = (r, st') \<Longrightarrow> invoked st' = invoked st @ [l]"
  by (auto simp add: invoke_def split: prod.splits)

lemma all_not_found_invoked:
  "all_not_found e name ds sk ls st = Some st' \<Longrightarrow> invoked st' = invoked st @ ls"
proof (induction ls arbitrary: st)
  case Nil
  then show ?case by simp
next
  case (Cons l ls)
  then show ?case
    by (auto split: prod.splits sum.splits exn.splits dest: invoke_invoked)
qed

lemma try_loaders_append:
  "all_not_found e name ds sk pre st = Some st' \<Longrightarrow>
   try_loaders e name ds sk (pre @ post) st = try_loaders e name ds sk post st'"
proof (induction pre arbitrary: st)
  case Nil
  then show ?case by simp
next
  case (Cons l pre)
  then show ?case
    by (auto split: prod.splits sum.splits exn.splits)
qed

lemma try_loaders_exhausted:
  "all_not_found e name ds sk ls st = Some st' \<Longrightarrow>
   try_loaders e name ds sk ls st = (Inl (TemplateDoesNotExist name), st')"
  using try_loaders_append [of e name ds sk ls st st' "[]"] by simp

text \<open>
  C1. Let the chain that \<open>find_template\<close> walks (the skip-filtered one when the marker
  has the name looked up, the full one otherwise) be \<open>pre\<close>, then \<open>l\<close>, then
  \<open>post\<close>. If every loader of \<open>pre\<close> raises \<open>TemplateDoesNotExist\<close> and \<open>l\<close>
  returns content \<open>c\<close> and display name \<open>dn\<close>, then \<open>find_template\<close> returns \<open>c\<close>
  with the origin made from \<open>dn\<close> and \<open>l\<close>, and the loaders it has called are those
  of \<open>pre\<close> and \<open>l\<close>: none of \<open>post\<close>.
\<close>

theorem find_template_first_success:
  assumes "active_loaders e loaders st = (Inr ls, st')"
    and "(if same_name skip_template name
          then skip_loaders (heap st') ls skip_template else ls) = pre @ l # post"
    and "all_not_found e name ds skip_template pre st' = Some st''"
    and "call_loader e l name ds skip_template (world st'') = (Inr (c, dn), w)"
  shows "find_template e name ds skip_template loaders st =
           (Inr (c, make_origin dn l name ds),
            st''\<lparr>invoked := invoked st' @ pre @ [l], world := w\<rparr>)"
proof -
  have inv: "invoked st'' = invoked st' @ pre"
    using assms(3) by (rule all_not_found_invoked)
  have "try_loaders e name ds skip_template (pre @ l # post) st' =
          try_loaders e name ds skip_template (l # post) st''"
    using assms(3) by (rule try_loaders_append)
  also have "\<dots> = (Inr (c, make_origin dn l name ds),
                   st''\<lparr>invoked := invoked st' @ pre @ [l], world := w\<rparr>)"
    using assms(4) inv by (simp add: invoke_def)
  finally show ?thesis
    using assms(1,2) by (simp add: find_template_def)
qed

theorem find_template_first_success_witness:
  "find_template ex_env ''base.html'' None
     (Some \<lparr>m_loadname = Some ''base.html'',
            m_loader = Some (BoundMethod 1 ''load_template_source'')\<rparr>)
     (Some [Instance 0, Instance 1, Instance 2, Instance 3]) ex_state =
     (Inr (Source ''hello'',
           Some \<lparr>display_name = ''/templates/base.html'', loader = Instance 2,
                 loadname = ''base.html'', dirs = None\<rparr>),
      ex_state\<lparr>invoked := [Instance 0, Instance 2], world := 2\<rparr>)"
proof -
  let ?m = "Some \<lparr>m_loadname = Some ''base.html'',
                  m_loader = Some (BoundMethod 1 ''load_template_source'')\<rparr>"
  let ?chain = "[Instance 0, Instance 1, Instance 2, Instance 3]"
  have a: "active_loaders ex_env (Some ?chain) ex_state = (Inr ?chain, ex_state)"
    by (simp add: active_loaders_def)
  have b: "(if same_name ?m ''base.html''
            then skip_loaders (heap ex_state) ?chain ?m else ?chain) =
           [Instance 0] @ Instance 2 # [Instance 3]"
    by (simp add: same_name_def skip_loaders_def loader_to_skip_def ex_state_def ex_heap_def)
  have c: "all_not_found ex_env ''base.html'' None ?m [Instance 0] ex_state =
           Some (ex_state\<lparr>invoked := [Instance 0], world := 1\<rparr>)"
    by (simp add: invoke_def ex_env_def ex_call_def ex_state_def)
  have d: "call_loader ex_env (Instance 2) ''base.html'' None ?m
             (world (ex_state\<lparr>invoked := [Instance 0], world := 1\<rparr>)) =
           (Inr (Source ''hello'', Some ''/templates/base.html''), 2)"
    by (simp add: ex_env_def ex_call_def)
  from find_template_first_success [OF a b c d] show ?thesis
    by (simp add: make_origin_def ex_state_def)
qed

text \<open>
  C3. If every loader of the chain that \<open>find_template\<close> walks raises
  \<open>TemplateDoesNotExist\<close>, whatever the messages, \<open>find_template\<close> raises
  \<open>TemplateDoesNotExist\<close> with the name it was asked for. If the loaders of \<open>pre\<close>
  raise \<open>TemplateDoesNotExist\<close> and the next loader \<open>l\<close> raises another exception,
  \<open>find_template\<close> raises that exception and has called no loader after \<open>l\<close>.
\<close>

theorem find_template_failure:
  "(active_loaders e loaders st = (Inr ls, st') \<longrightarrow>
    all_not_found e name ds skip_template
      (if same_name skip_template name
       then skip_loaders (heap st') ls skip_template else ls) st' = Some st'' \<longrightarrow>
    find_template e name ds skip_template loaders st =
      (Inl (TemplateDoesNotExist name), st'')) \<and>
   (active_loaders e loaders st = (Inr ls, st') \<longrightarrow>
    (if same_name skip_template name
     then skip_loaders (heap st') ls skip_template else ls) = pre @ l # post \<longrightarrow>
    all_not_found e name ds skip_template pre st' = Some st'' \<longrightarrow>
    call_loader e l name ds skip_template (world st'') = (Inl err, w) \<longrightarrow>
    (\<forall>msg. err \<noteq> TemplateDoesNotExist msg) \<longrightarrow>
    find_template e name ds skip_template loaders st =
      (Inl err, st''\<lparr>invoked := invoked st' @ pre @ [l], world := w\<rparr>))"
proof (intro conjI impI)
  assume "active_loaders e loaders st = (Inr ls, st')"
    and "all_not_found e name ds skip_template
      (if same_name skip_template name
       then skip_loaders (heap st') ls skip_template else ls) st' = Some st''"
  then show "find_template e name ds skip_template loaders st =
      (Inl (TemplateDoesNotExist name), st'')"
    by (simp add: find_template_def try_loaders_exhausted)
next
  assume a: "active_loaders e loaders st = (Inr ls, st')"
    and c: "(if same_name skip_template name
     then skip_loaders (heap st') ls skip_template else ls) = pre @ l # post"
    and p: "all_not_found e name ds skip_template pre st' = Some st''"
    and r: "call_loader e l name ds skip_template (world st'') = (Inl err, w)"
    and o: "\<forall>msg. err \<noteq> TemplateDoesNotExist msg"
  have inv: "invoked st'' = invoked st' @ pre"
    using p by (rule all_not_found_invoked)
  have "try_loaders e name ds skip_template (pre @ l # post) st' =
          try_loaders e name ds skip_template (l # post) st''"
    using p by (rule try_loaders_append)
  also have "\<dots> = (Inl err, st''\<lparr>invoked := invoked st' @ pre @ [l], world := w\<rparr>)"
    using r o inv by (cases err) (simp_all add: invoke_def)
  finally show "find_template e name ds skip_template loaders st =
      (Inl err, st''\<lparr>invoked := invoked st' @ pre @ [l], world := w\<rparr>)"
    using a c by (simp add: find_template_def)
qed

theorem find_template_failure_witness:
  "find_template ex_env ''x.html'' None None (Some [Instance 0, Instance 1]) ex_state =
     (Inl (TemplateDoesNotExist ''x.html''),
      ex_state\<lparr>invoked := [Instance 0, Instance 1], world := 2\<rparr>) \<and>
   find_template ex_env ''base.html'' None None
     (Some [Instance 1, Instance 3, Instance 2]) ex_state =
     (Inl (OtherError ''IOError''),
      ex_state\<lparr>invoked := [Instance 1, Instance 3], world := 2\<rparr>)"
  using
    find_template_failure [where e = ex_env and loaders = "Some [Instance 0, Instance 1]"
      and st = ex_state and ls = "[Instance 0, Instance 1]" and st' = ex_state
      and name = "''x.html''" and ds = None and skip_template = None
      and st'' = "ex_state\<lparr>invoked := [Instance 0, Instance 1], world := 2\<rparr>",
      THEN conjunct1]
    find_template_failure [where e = ex_env
      and loaders = "Some [Instance 1, Instance 3, Instance 2]"
      and st = ex_state and ls = "[Instance 1, Instance 3, Instance 2]" and st' = ex_state
      and name = "''base.html''" and ds = None and skip_template = None
      and pre = "[Instance 1]" and l = "Instance 3" and post = "[Instance 2]"
      and st'' = "ex_state\<lparr>invoked := [Instance 1], world := 1\<rparr>"
      and err = "OtherError ''IOError''" and w = 2,
      THEN conjunct2]
  by (simp add: active_loaders_def same_name_def invoke_def ex_env_def ex_call_def
      ex_state_def)

text \<open>
  C4. With a marker present, \<open>find_template\<close> walks the output of \<open>skip_loaders\<close>
  when the marker's recorded name is the name looked up, and the chain itself when the
  marker records another name or none.
\<close>

theorem find_template_skip_condition:
  "(active_loaders e loaders st = (Inr ls, st') \<longrightarrow>
    m_loadname m = Some name \<longrightarrow>
    find_template e name ds (Some m) loaders st =
      try_loaders e name ds (Some m) (skip_loaders (heap st') ls (Some m)) st') \<and>
   (active_loaders e loaders st = (Inr ls, st') \<longrightarrow>
    m_loadname m \<noteq> Some name \<longrightarrow>
    find_template e name ds (Some m) loaders st =
      try_loaders e name ds (Some m) ls st')"
  by (simp add: find_template_def same_name_def)

theorem find_template_skip_condition_witness:
  "find_template ex_env ''base.html'' None
     (Some \<lparr>m_loadname = Some ''base.html'', m_loader = Some (Instance 2)\<rparr>)
     (Some [Instance 1, Instance 2]) ex_state =
     (Inl (TemplateDoesNotExist ''base.html''), ex_state) \<and>
   fst (find_template ex_env ''base.html'' None
     (Some \<lparr>m_loadname = Some ''other.html'', m_loader = Some (Instance 2)\<rparr>)
     (Some [Instance 1, Instance 2]) ex_state) =
     Inr (Source ''hello'',
          Some \<lparr>display_name = ''/templates/base.html'', loader = Instance 2,
                loadname = ''base.html'', dirs = None\<rparr>) \<and>
   fst (find_template ex_env ''base.html'' None
     (Some \<lparr>m_loadname = None, m_loader = Some (Instance 2)\<rparr>)
     (Some [Instance 1, Instance 2]) ex_state) =
     Inr (Source ''hello'',
          Some \<lparr>display_name = ''/templates/base.html'', loader = Instance 2,
                loadname = ''base.html'', dirs = None\<rparr>)"
  using
    find_template_skip_condition [where e = ex_env and loaders = "Some [Instance 1, Instance 2]"
      and st = ex_state and ls = "[Instance 1, Instance 2]" and st' = ex_state
      and name = "''base.html''" and ds = None
      and m = "\<lparr>m_loadname = Some ''base.html'', m_loader = Some (Instance 2)\<rparr>"]
    find_template_skip_condition [where e = ex_env and loaders = "Some [Instance 1, Instance 2]"
      and st = ex_state and ls = "[Instance 1, Instance 2]" and st' = ex_state
      and name = "''base.html''" and ds = None
      and m = "\<lparr>m_loadname = Some ''other.html'', m_loader = Some (Instance 2)\<rparr>"]
    find_template_skip_condition [where e = ex_env and loaders = "Some [Instance 1, Instance 2]"
      and st = ex_state and ls = "[Instance 1, Instance 2]" and st' = ex_state
      and name = "''base.html''" and ds = None
      and m = "\<lparr>m_loadname = None, m_loader = Some (Instance 2)\<rparr>"]
  by (simp add: active_loaders_def skip_loaders_def loader_to_skip_def invoke_def
      make_origin_def ex_env_def ex_call_def ex_state_def ex_heap_def)

subsection \<open>The loader registry\<close>

lemma check_usable_keeps:
  "check_usable p f st = (r, st') \<Longrightarrow>
   resolved st' = resolved st \<and> template_source_loaders st' = template_source_loaders st"
  by (auto simp add: check_usable_def split: if_splits)

lemma find_template_loader_resolved:
  "find_template_loader e spec st = (r, st') \<Longrightarrow>
   resolved st' = resolved st @ [spec] \<and>
   template_source_loaders st' = template_source_loaders st"
  unfolding find_template_loader_def Let_def
  by (auto split: sum.splits prod.splits pyval.splits list.splits imported.splits if_splits
      dest!: check_usable_keeps)

lemma resolve_all_resolved:
  "resolve_all e specs acc st = (Inr ls, st') \<Longrightarrow>
   resolved st' = resolved st @ specs \<and>
   template_source_loaders st' = template_source_loaders st"
proof (induction specs arbitrary: acc st)
  case Nil
  then show ?case by simp
next
  case (Cons s specs)
  obtain r sa where f: "find_template_loader e s st = (r, sa)"
    by (cases "find_template_loader e s st")
  note k = find_template_loader_resolved [OF f]
  show ?case
  proof (cases r)
    case (Inl err)
    with Cons.prems f show ?thesis by simp
  next
    case (Inr found)
    show ?thesis
    proof (cases found)
      case None
      with Cons.prems f Inr have "resolve_all e specs acc sa = (Inr ls, st')" by simp
      from Cons.IH [OF this] k show ?thesis by simp
    next
      case (Some l)
      with Cons.prems f Inr have "resolve_all e specs (acc @ [l]) sa = (Inr ls, st')" by simp
      from Cons.IH [OF this] k show ?thesis by simp
    qed
  qed
qed

lemma get_loaders_stores:
  "get_template_source_loaders e st = (Inr c, st') \<Longrightarrow> template_source_loaders st' = Some c"
  by (auto simp add: get_template_source_loaders_def split: option.splits prod.splits sum.splits)

lemma get_loaders_memo:
  "template_source_loaders st = Some c \<Longrightarrow> get_template_source_loaders e st = (Inr c, st)"
  by (simp add: get_template_source_loaders_def)

lemma invoke_cache:
  "invoke e l name ds sk st = (r, st') \<Longrightarrow>
   template_source_loaders st' = template_source_loaders st"
  by (auto simp add: invoke_def split: prod.splits)

lemma try_loaders_cache:
  "try_loaders e name ds sk ls st = (r, st') \<Longrightarrow>
   template_source_loaders st' = template_source_loaders st"
proof (induction ls arbitrary: st)
  case Nil
  then show ?case by simp
next
  case (Cons l ls)
  obtain ra sa where i: "invoke e l name ds sk st = (ra, sa)"
    by (cases "invoke e l name ds sk st")
  note k = invoke_cache [OF i]
  show ?case
  proof (cases ra)
    case (Inr p)
    with Cons.prems i k show ?thesis by (auto split: prod.splits)
  next
    case (Inl err)
    show ?thesis
    proof (cases err)
      case (TemplateDoesNotExist msg)
      with Cons.prems i Inl have "try_loaders e name ds sk ls sa = (r, st')" by simp
      from Cons.IH [OF this] k show ?thesis by simp
    qed (use Cons.prems i Inl k in auto)
  qed
qed

lemma find_template_cache:
  assumes "template_source_loaders st = Some c"
    and "find_template e name ds sk loaders st = (r, st')"
  shows "template_source_loaders st' = Some c"
proof -
  have "\<exists>ls. active_loaders e loaders st = (Inr ls, st)"
    using assms(1) by (cases loaders) (simp_all add: active_loaders_def get_loaders_memo)
  then obtain ls where "active_loaders e loaders st = (Inr ls, st)" ..
  with assms(2) obtain ls' where "try_loaders e name ds sk ls' st = (r, st')"
    by (simp add: find_template_def)
  from try_loaders_cache [OF this] assms(1) show ?thesis by simp
qed

lemma get_template_cache:
  assumes "template_source_loaders st = Some c"
    and "get_template e name ds sk st = (r, st')"
  shows "template_source_loaders st' = Some c"
proof -
  obtain ra sa where f: "find_template e name ds sk None st = (ra, sa)"
    by (cases "find_template e name ds sk None st")
  note k = find_template_cache [OF assms(1) f]
  from assms(2) f k show ?thesis
    by (auto simp add: get_template_def split: sum.splits prod.splits content.splits)
qed

lemma select_loop_cache:
  "template_source_loaders st = Some c \<Longrightarrow>
   select_loop e ds sk ns acc st = (r, st') \<Longrightarrow>
   template_source_loaders st' = Some c"
proof (induction ns arbitrary: st acc)
  case Nil
  then show ?case by simp
next
  case (Cons n ns)
  obtain ra sa where g: "get_template e n ds sk st = (ra, sa)"
    by (cases "get_template e n ds sk st")
  note k = get_template_cache [OF Cons.prems(1) g]
  show ?case
  proof (cases ra)
    case (Inr t)
    with Cons.prems g k show ?thesis by simp
  next
    case (Inl err)
    show ?thesis
    proof (cases err)
      case (TemplateDoesNotExist msg)
      with Cons.prems g Inl obtain acc' where
        "select_loop e ds sk ns acc' sa = (r, st')" by simp
      from Cons.IH [OF k this] show ?thesis .
    qed (use Cons.prems g Inl k in auto)
  qed
qed

lemma select_template_cache:
  "template_source_loaders st = Some c \<Longrightarrow>
   select_template e ns ds sk st = (r, st') \<Longrightarrow>
   template_source_loaders st' = Some c"
  by (auto simp add: select_template_def split: if_splits dest: select_loop_cache)

lemma render_to_string_cache:
  assumes "template_source_loaders st = Some c"
    and "render_to_string e tn d ci ds st = (r, c', st')"
  shows "template_source_loaders st' = Some c"
proof -
  obtain ra sa where l: "load_named e tn ds st = (ra, sa)"
    by (cases "load_named e tn ds st")
  then have k: "template_source_loaders sa = Some c"
    using assms(1)
    by (cases tn) (auto simp add: load_named_def dest: select_template_cache get_template_cache)
  from assms(2) l k show ?thesis
    by (auto simp add: render_to_string_def split: sum.splits option.splits prod.splits)
qed

text \<open>
  C8. Once a call of \<open>get_template_source_loaders\<close> has returned a chain, every later
  call, whatever the settings then are, returns that chain and leaves the whole state as
  it is: no loader spec is resolved again, no object is made, no warning is given. The
  other operations of the module keep a stored chain as it is. After a reset of the
  global the next successful call resolves every configured spec again.
\<close>

theorem loaders_computed_once:
  "(get_template_source_loaders e st = (Inr c, st') \<longrightarrow>
      (\<forall>e'. get_template_source_loaders e' st' = (Inr c, st'))) \<and>
   (template_source_loaders st = Some c \<longrightarrow>
      template_source_loaders (snd (find_template e name ds sk loaders st)) = Some c \<and>
      template_source_loaders (snd (select_template e names ds sk st)) = Some c \<and>
      template_source_loaders (snd (snd (render_to_string e tn d ci ds st))) = Some c) \<and>
   (get_template_source_loaders e (reset_loaders st) = (Inr c, st') \<longrightarrow>
      resolved st' = resolved st @ TEMPLATE_LOADERS e)"
proof (intro conjI impI allI)
  fix e'
  assume "get_template_source_loaders e st = (Inr c, st')"
  then have "template_source_loaders st' = Some c" by (rule get_loaders_stores)
  then show "get_template_source_loaders e' st' = (Inr c, st')" by (rule get_loaders_memo)
next
  assume "template_source_loaders st = Some c"
  then show "template_source_loaders (snd (find_template e name ds sk loaders st)) = Some c"
    by (rule find_template_cache) (rule surjective_pairing)
next
  assume "template_source_loaders st = Some c"
  then show "template_source_loaders (snd (select_template e names ds sk st)) = Some c"
    by (rule select_template_cache) (rule surjective_pairing)
next
  assume "template_source_loaders st = Some c"
  then show "template_source_loaders (snd (snd (render_to_string e tn d ci ds st))) = Some c"
    by (rule render_to_string_cache) (simp add: prod_eq_iff)
next
  assume "get_template_source_loaders e (reset_loaders st) = (Inr c, st')"
  then show "resolved st' = resolved st @ TEMPLATE_LOADERS e"
    by (auto simp add: get_template_source_loaders_def reset_loaders_def
        split: prod.splits sum.splits dest!: resolve_all_resolved)
qed

theorem loaders_computed_once_witness:
  "fst (get_template_source_loaders ex_env ex_state) = Inr [Instance 4, Instance 1] \<and>
   get_template_source_loaders (ex_env\<lparr>TEMPLATE_LOADERS := []\<rparr>)
       (snd (get_template_source_loaders ex_env ex_state)) =
     (Inr [Instance 4, Instance 1], snd (get_template_source_loaders ex_env ex_state)) \<and>
   template_source_loaders
     (snd (find_template ex_env ''base.html'' None None None ex_ready)) =
     Some [Instance 1, Instance 2] \<and>
   resolved (snd (get_template_source_loaders ex_env (reset_loaders ex_ready))) =
     [Str ''app.Loader'', Seq [Str ''app.load'']]"
proof -
  let ?s = "snd (get_template_source_loaders ex_env ex_state)"
  have v: "fst (get_template_source_loaders ex_env ex_state) = Inr [Instance 4, Instance 1]"
    by (simp add: get_template_source_loaders_def find_template_loader_def check_usable_def
        ex_env_def ex_import_def ex_state_def ex_heap_def)
  then have a: "get_template_source_loaders ex_env ex_state = (Inr [Instance 4, Instance 1], ?s)"
    by (simp add: prod_eq_iff)
  have b: "template_source_loaders ex_ready = Some [Instance 1, Instance 2]"
    by (simp add: ex_ready_def)
  have r: "fst (get_template_source_loaders ex_env (reset_loaders ex_ready)) =
           Inr [Instance 4, Instance 1]"
    by (simp add: get_template_source_loaders_def find_template_loader_def check_usable_def
        reset_loaders_def ex_env_def ex_import_def ex_state_def ex_ready_def ex_heap_def)
  then have d: "get_template_source_loaders ex_env (reset_loaders ex_ready) =
                (Inr [Instance 4, Instance 1],
                 snd (get_template_source_loaders ex_env (reset_loaders ex_ready)))"
    by (simp add: prod_eq_iff)
  have c1: "get_template_source_loaders (ex_env\<lparr>TEMPLATE_LOADERS := []\<rparr>) ?s =
            (Inr [Instance 4, Instance 1], ?s)"
    using loaders_computed_once [where e = ex_env and st = ex_state and st' = ?s
        and c = "[Instance 4, Instance 1]", THEN conjunct1, rule_format, OF a] .
  have c2: "template_source_loaders
              (snd (find_template ex_env ''base.html'' None None None ex_ready)) =
            Some [Instance 1, Instance 2]"
    using loaders_computed_once [where st = ex_ready and c = "[Instance 1, Instance 2]",
        THEN conjunct2, THEN conjunct1, rule_format, OF b, THEN conjunct1] .
  have "resolved (snd (get_template_source_loaders ex_env (reset_loaders ex_ready))) =
        resolved ex_ready @ TEMPLATE_LOADERS ex_env"
    using loaders_computed_once [where e = ex_env and st = ex_ready
        and c = "[Instance 4, Instance 1]", THEN conjunct2, THEN conjunct2, rule_format, OF d] .
  then have c3: "resolved (snd (get_template_source_loaders ex_env (reset_loaders ex_ready))) =
        [Str ''app.Loader'', Seq [Str ''app.load'']]"
    by (simp add: ex_ready_def ex_state_def ex_env_def)
  from v c1 c2 c3 show ?thesis by blast
qed

subsection \<open>The selector\<close>

text \<open>
  C5, as the code has it. With an empty list of names \<open>select_template\<close> raises
  \<open>TemplateDoesNotExist\<close> with the message \<open>No template names provided\<close>, and
  leaves the state as it is: no name is looked up.
\<close>

theorem select_template_empty:
  "select_template e [] ds skip_template st =
     (Inl (TemplateDoesNotExist ''No template names provided''), st)"
  by (simp add: select_template_def)

text \<open>
  C5, as the claim has it, fails: the failure on the empty list is a
  \<open>TemplateDoesNotExist\<close>.
\<close>

theorem select_template_empty_counterexample:
  "is_not_found (fst (select_template ex_env [] None None ex_state))"
  by (simp add: select_template_def is_not_found_def)

lemma removeAll_filter: "removeAll x (filter P xs) = filter (\<lambda>y. y \<noteq> x \<and> P y) xs"
  by (induction xs) auto

lemma select_loop_failures:
  "failures e ds sk ns st = Some (ms, st') \<Longrightarrow>
   select_loop e ds sk ns acc st =
     (Inl (TemplateDoesNotExist
        (join '', '' (acc @ first_seen (filter (\<lambda>m. m \<notin> set acc) ms)))), st')"
proof (induction ns arbitrary: st acc ms)
  case Nil
  then show ?case by simp
next
  case (Cons n ns)
  from Cons.prems obtain msg sa rest where
    g: "get_template e n ds sk st = (Inl (TemplateDoesNotExist msg), sa)" and
    f: "failures e ds sk ns sa = Some (rest, st')" and
    m: "ms = msg # rest"
    by (auto split: prod.splits sum.splits exn.splits option.splits)
  note ih = Cons.IH [OF f]
  show ?case
  proof (cases "msg \<in> set acc")
    case True
    with g m ih [of acc] show ?thesis by simp
  next
    case False
    with g m ih [of "acc @ [msg]"] show ?thesis
      by (simp add: removeAll_filter)
  qed
qed

lemma select_loop_append:
  "failures e ds sk pre st = Some (ms, st') \<Longrightarrow>
   \<exists>acc'. select_loop e ds sk (pre @ post) acc st = select_loop e ds sk post acc' st'"
proof (induction pre arbitrary: st acc ms)
  case Nil
  then show ?case by auto
next
  case (Cons n ns)
  from Cons.prems obtain msg sa rest where
    g: "get_template e n ds sk st = (Inl (TemplateDoesNotExist msg), sa)" and
    f: "failures e ds sk ns sa = Some (rest, st')"
    by (auto split: prod.splits sum.splits exn.splits option.splits)
  from Cons.IH [OF f] g show ?case by simp
qed

text \<open>
  C6. If the list of names is not empty and every name fails with
  \<open>TemplateDoesNotExist\<close>, with the messages \<open>ms\<close> in order, \<open>select_template\<close>
  raises \<open>TemplateDoesNotExist\<close> whose message is the distinct messages of \<open>ms\<close> in
  the order of their first occurrence, joined by a comma and a space. If the names
  \<open>pre\<close> fail so and the next name \<open>n\<close> gives a template, that template is returned
  in the state \<open>get_template\<close> left for \<open>n\<close>: no later name is looked up.
\<close>

theorem select_template_aggregates:
  "(names \<noteq> [] \<longrightarrow>
    failures e ds skip_template names st = Some (ms, st') \<longrightarrow>
    select_template e names ds skip_template st =
      (Inl (TemplateDoesNotExist (join '', '' (first_seen ms))), st')) \<and>
   (failures e ds skip_template pre st = Some (ms, st') \<longrightarrow>
    get_template e n ds skip_template st' = (Inr t, st'') \<longrightarrow>
    select_template e (pre @ n # post) ds skip_template st = (Inr t, st''))"
proof (intro conjI impI)
  assume "names \<noteq> []" and "failures e ds skip_template names st = Some (ms, st')"
  then show "select_template e names ds skip_template st =
      (Inl (TemplateDoesNotExist (join '', '' (first_seen ms))), st')"
    using select_loop_failures [of e ds skip_template names st ms st' "[]"]
    by (simp add: select_template_def)
next
  assume f: "failures e ds skip_template pre st = Some (ms, st')"
    and g: "get_template e n ds skip_template st' = (Inr t, st'')"
  from select_loop_append [OF f, of "n # post" "[]"] g
  show "select_template e (pre @ n # post) ds skip_template st = (Inr t, st'')"
    by (auto simp add: select_template_def)
qed

lemma ex_get_template_missing:
  "name \<noteq> ''base.html'' \<Longrightarrow> name \<noteq> ''boom.html'' \<Longrightarrow>
   get_template ex_env name None None (ex_ready\<lparr>invoked := i, world := w\<rparr>) =
     (Inl (TemplateDoesNotExist name),
      ex_ready\<lparr>invoked := i @ [Instance 1, Instance 2], world := Suc (Suc w)\<rparr>)"
  by (simp add: get_template_def find_template_def active_loaders_def
      get_template_source_loaders_def same_name_def invoke_def ex_env_def ex_call_def
      ex_ready_def ex_state_def)

lemma ex_get_template_base:
  "get_template ex_env ''base.html'' None None (ex_ready\<lparr>invoked := i, world := w\<rparr>) =
     (Inr ''hello'', ex_ready\<lparr>invoked := i @ [Instance 1, Instance 2], world := Suc (Suc w)\<rparr>)"
  by (simp add: get_template_def find_template_def active_loaders_def
      get_template_source_loaders_def same_name_def invoke_def get_template_from_string_def
      ex_env_def ex_call_def ex_Template_def ex_ready_def ex_state_def)

theorem select_template_aggregates_witness:
  "select_template ex_env [''x.html'', ''y.html'', ''x.html''] None None
     (ex_ready\<lparr>invoked := [], world := 0\<rparr>) =
     (Inl (TemplateDoesNotExist ''x.html, y.html''),
      ex_ready\<lparr>invoked := [Instance 1, Instance 2, Instance 1, Instance 2,
                            Instance 1, Instance 2], world := 6\<rparr>) \<and>
   select_template ex_env [''x.html'', ''base.html'', ''y.html''] None None
     (ex_ready\<lparr>invoked := [], world := 0\<rparr>) =
     (Inr ''hello'',
      ex_ready\<lparr>invoked := [Instance 1, Instance 2, Instance 1, Instance 2], world := 4\<rparr>)"
proof -
  let ?s = "ex_ready\<lparr>invoked := [], world := 0\<rparr>"
  have f3: "failures ex_env None None [''x.html'', ''y.html'', ''x.html''] ?s =
            Some ([''x.html'', ''y.html'', ''x.html''],
                  ex_ready\<lparr>invoked := [Instance 1, Instance 2, Instance 1, Instance 2,
                                        Instance 1, Instance 2], world := 6\<rparr>)"
    by (simp add: ex_get_template_missing)
  have f1: "failures ex_env None None [''x.html''] ?s =
            Some ([''x.html''], ex_ready\<lparr>invoked := [Instance 1, Instance 2], world := 2\<rparr>)"
    by (simp add: ex_get_template_missing)
  have g: "get_template ex_env ''base.html'' None None
             (ex_ready\<lparr>invoked := [Instance 1, Instance 2], world := 2\<rparr>) =
           (Inr ''hello'',
            ex_ready\<lparr>invoked := [Instance 1, Instance 2, Instance 1, Instance 2], world := 4\<rparr>)"
    by (simp add: ex_get_template_base)
  have n: "[''x.html'', ''y.html'', ''x.html''] \<noteq> []" by simp
  have a: "select_template ex_env [''x.html'', ''y.html'', ''x.html''] None None ?s =
           (Inl (TemplateDoesNotExist
                  (join '', '' (first_seen [''x.html'', ''y.html'', ''x.html'']))),
            ex_ready\<lparr>invoked := [Instance 1, Instance 2, Instance 1, Instance 2,
                                  Instance 1, Instance 2], world := 6\<rparr>)"
    using select_template_aggregates [THEN conjunct1, rule_format, OF n f3] .
  have b: "select_template ex_env ([''x.html''] @ ''base.html'' # [''y.html'']) None None ?s =
           (Inr ''hello'',
            ex_ready\<lparr>invoked := [Instance 1, Instance 2, Instance 1, Instance 2], world := 4\<rparr>)"
    using select_template_aggregates [THEN conjunct2, rule_format, OF f1 g] .
  from a b show ?thesis by simp
qed

subsection \<open>Rendering\<close>





subsection \<open>The class-based loader\<close>

text \<open>
  C10. If \<open>load_template_source\<close> returns a source and a display name and compiling
  that source raises \<open>TemplateDoesNotExist\<close>, \<open>load_template\<close> raises nothing: it
  returns the source, uncompiled, with the display name. A chain whose first loader is
  called through \<open>__call__\<close> then resolves at that loader, to this source and the
  origin made from the display name.
\<close>

theorem load_template_swallows:
  "(load_template_source e self name ds w = (Inr (source, dn), w') \<longrightarrow>
    Template e source (make_origin dn (BoundMethod self ''load_template_source'') name ds)
      (Some name) w' = (Inl (TemplateDoesNotExist msg), w'') \<longrightarrow>
    load_template e self name ds skip_template w = (Inr (Source source, dn), w'')) \<and>
   (load_template_source e self name ds (world st) = (Inr (source, dn), w') \<longrightarrow>
    Template e source (make_origin dn (BoundMethod self ''load_template_source'') name ds)
      (Some name) w' = (Inl (TemplateDoesNotExist msg), w'') \<longrightarrow>
    call_loader e l name ds None (world st) = BaseLoader_call e self name ds None (world st) \<longrightarrow>
    find_template e name ds None (Some (l # ls)) st =
      (Inr (Source source, make_origin dn l name ds),
       st\<lparr>invoked := invoked st @ [l], world := w''\<rparr>))"
  by (simp add: load_template_def get_template_from_string_def BaseLoader_call_def
      find_template_def active_loaders_def same_name_def invoke_def)

theorem load_template_swallows_witness:
  "load_template ex_env 5 ''broken.html'' None None 0 =
     (Inr (Source ''broken'', Some ''/templates/broken.html''), 1) \<and>
   find_template ex_class_env ''broken.html'' None None
     (Some [Instance 5, Instance 2]) ex_state =
     (Inr (Source ''broken'',
           Some \<lparr>display_name = ''/templates/broken.html'', loader = Instance 5,
                 loadname = ''broken.html'', dirs = None\<rparr>),
      ex_state\<lparr>invoked := [Instance 5], world := 1\<rparr>)"
proof -
  let ?o = "make_origin (Some ''/templates/broken.html'')
              (BoundMethod 5 ''load_template_source'') ''broken.html'' None"
  have s: "load_template_source ex_env 5 ''broken.html'' None 0 =
           (Inr (''broken'', Some ''/templates/broken.html''), 1)"
    by (simp add: ex_env_def ex_load_template_source_def)
  have t: "Template ex_env ''broken'' ?o (Some ''broken.html'') 1 =
           (Inl (TemplateDoesNotExist ''missing.html''), 1)"
    by (simp add: ex_env_def ex_Template_def)
  have s': "load_template_source ex_class_env 5 ''broken.html'' None (world ex_state) =
           (Inr (''broken'', Some ''/templates/broken.html''), 1)"
    by (simp add: ex_class_env_def ex_env_def ex_load_template_source_def ex_state_def)
  have t': "Template ex_class_env ''broken'' ?o (Some ''broken.html'') 1 =
           (Inl (TemplateDoesNotExist ''missing.html''), 1)"
    by (simp add: ex_class_env_def ex_env_def ex_Template_def)
  have c: "call_loader ex_class_env (Instance 5) ''broken.html'' None None (world ex_state) =
           BaseLoader_call ex_class_env 5 ''broken.html'' None None (world ex_state)"
    by (simp add: ex_class_env_def BaseLoader_call_def load_template_def
        get_template_from_string_def ex_env_def ex_load_template_source_def ex_Template_def)
  have a: "load_template ex_env 5 ''broken.html'' None None 0 =
           (Inr (Source ''broken'', Some ''/templates/broken.html''), 1)"
    using load_template_swallows [THEN conjunct1, rule_format, OF s t] .
  have b: "find_template ex_class_env ''broken.html'' None None
             (Some (Instance 5 # [Instance 2])) ex_state =
           (Inr (Source ''broken'',
                 make_origin (Some ''/templates/broken.html'') (Instance 5) ''broken.html'' None),
            ex_state\<lparr>invoked := invoked ex_state @ [Instance 5], world := 1\<rparr>)"
    using load_template_swallows [THEN conjunct2, rule_format, OF s' t' c] .
  from a b show ?thesis by (simp add: make_origin_def ex_state_def)
qed

end
